theory Spec2Isabelle
  imports Main
begin

section \<open>Strings and numbers as the server formats them\<close>

text \<open>
  Timestamps (\<open>Date.now()\<close>), limits and exit codes are JavaScript numbers holding
  integers; they are modelled as \<open>int\<close>. Strings are lists of code units.
  \<open>debugLog\<close> and \<open>auditLog\<close> only write to the process's error stream and are left out.
\<close>

text \<open>The decimal digit of a number below ten.\<close>

definition digit :: "nat \<Rightarrow> char" where
  "digit n = ''0123456789'' ! n"

function show_nat :: "nat \<Rightarrow> string" where
  "show_nat n =
     (if n < 10 then [digit n]
      else show_nat (n div 10) @ [digit (n mod 10)])"
  by pat_completeness auto
termination
  by (relation "measure id") auto

declare show_nat.simps [simp del]

definition show_int :: "int \<Rightarrow> string" where
  "show_int i = (if i < 0 then CHR ''-'' # show_nat (nat (- i)) else show_nat (nat i))"

section \<open>Configuration and errors\<close>

record config =
  DEFAULT_TIMEOUT :: int
  RATE_LIMIT_ENABLED :: bool
  RATE_LIMIT_MAX :: int
  RATE_LIMIT_WINDOW :: int
  POOL_ENABLED :: bool
  POOL_MAX_SIZE :: int
  POOL_TTL :: int
  MAX_CHARS :: "nat option"
  STRICT_MODE :: bool

text \<open>The defaults of the source: no option given on the command line or in the environment.
  \<open>MAX_CHARS = None\<close> stands for \<open>Infinity\<close>.\<close>

definition default_config :: config where
  "default_config =
     \<lparr>DEFAULT_TIMEOUT = 60000,
      RATE_LIMIT_ENABLED = True, RATE_LIMIT_MAX = 10, RATE_LIMIT_WINDOW = 60000,
      POOL_ENABLED = True, POOL_MAX_SIZE = 3, POOL_TTL = 300000,
      MAX_CHARS = Some 1000, STRICT_MODE = False\<rparr>"

datatype ErrorCode = InvalidRequest | InvalidParams | InternalError

datatype McpError = McpError ErrorCode string

section \<open>RateLimiter\<close>

definition rate_limit_message :: "config \<Rightarrow> string" where
  "rate_limit_message cfg =
     ''Rate limit exceeded: '' @ show_int (RATE_LIMIT_MAX cfg) @ '' requests per ''
       @ show_int (RATE_LIMIT_WINDOW cfg) @ ''ms''"

text \<open>\<open>checkLimit\<close> at time \<open>now\<close> on the field \<open>requests\<close>: the result is the thrown
  error or the normal return, together with the new value of the field.\<close>

definition checkLimit :: "config \<Rightarrow> int \<Rightarrow> int list \<Rightarrow> (McpError + unit) \<times> int list" where
  "checkLimit cfg now requests =
     (if \<not> RATE_LIMIT_ENABLED cfg then (Inr (), requests)
      else
        let windowStart = now - RATE_LIMIT_WINDOW cfg;
            requests' = filter (\<lambda>time. time > windowStart) requests
        in if int (length requests') \<ge> RATE_LIMIT_MAX cfg
           then (Inl (McpError InvalidRequest (rate_limit_message cfg)), requests')
           else (Inr (), requests' @ [now]))"

text \<open>A run of admission checks at the given times, each on the window the previous one left:
  the outcomes in order and the final window.\<close>

fun checkLimits :: "config \<Rightarrow> int list \<Rightarrow> int list \<Rightarrow> (McpError + unit) list \<times> int list" where
  "checkLimits cfg [] requests = ([], requests)"
| "checkLimits cfg (now # nows) requests =
     (case checkLimit cfg now requests of
        (r, requests') \<Rightarrow>
          (case checkLimits cfg nows requests' of (rs, requests'') \<Rightarrow> (r # rs, requests'')))"

text \<open>The pruning step as the specification words it: exactly the timestamps older than
  the start of the window are dropped.\<close>

definition dropOlderThan :: "int \<Rightarrow> int list \<Rightarrow> int list" where
  "dropOlderThan windowStart requests = filter (\<lambda>time. \<not> time < windowStart) requests"

section \<open>SSHConnectionPool\<close>

text \<open>A connection object is identified by the number of the \<open>createNewConnection\<close> call
  that made it. The state of the process: the rate window, the pool, the connections on
  which \<open>end()\<close> was called (in order), and the number of connections created so far.\<close>

record PooledConnection =
  conn :: nat
  lastUsed :: int

record sys =
  requests :: "int list"
  pool :: "PooledConnection list"
  ended :: "nat list"
  connects :: nat

definition sys_init :: sys where
  "sys_init = \<lparr>requests = [], pool = [], ended = [], connects = 0\<rparr>"

text \<open>\<open>createNewConnection\<close>: the transport either reports \<open>ready\<close> (\<open>None\<close>) or an
  error with its message.\<close>

definition createNewConnection :: "string option \<Rightarrow> sys \<Rightarrow> (string + nat) \<times> sys" where
  "createNewConnection outcome s =
     (case outcome of
        None \<Rightarrow> (Inr (connects s), s\<lparr>connects := Suc (connects s)\<rparr>)
      | Some msg \<Rightarrow> (Inl msg, s\<lparr>connects := Suc (connects s)\<rparr>))"

definition expired :: "config \<Rightarrow> int \<Rightarrow> PooledConnection \<Rightarrow> bool" where
  "expired cfg now pooled = (now - lastUsed pooled > POOL_TTL cfg)"

definition cleanupExpired :: "config \<Rightarrow> int \<Rightarrow> sys \<Rightarrow> sys" where
  "cleanupExpired cfg now s =
     s\<lparr>pool := filter (\<lambda>pooled. \<not> expired cfg now pooled) (pool s),
       ended := ended s @ map conn (filter (expired cfg now) (pool s))\<rparr>"

definition getConnection :: "config \<Rightarrow> int \<Rightarrow> string option \<Rightarrow> sys \<Rightarrow> (string + nat) \<times> sys" where
  "getConnection cfg now outcome s =
     (if \<not> POOL_ENABLED cfg then createNewConnection outcome s
      else
        let s1 = cleanupExpired cfg now s
        in if length (pool s1) > 0
           then (Inr (conn (last (pool s1))), s1\<lparr>pool := butlast (pool s1)\<rparr>)
           else createNewConnection outcome s1)"

definition returnConnection :: "config \<Rightarrow> int \<Rightarrow> nat \<Rightarrow> sys \<Rightarrow> sys" where
  "returnConnection cfg now c s =
     (if \<not> POOL_ENABLED cfg then s\<lparr>ended := ended s @ [c]\<rparr>
      else if int (length (pool s)) \<ge> POOL_MAX_SIZE cfg then s\<lparr>ended := ended s @ [c]\<rparr>
      else s\<lparr>pool := pool s @ [\<lparr>conn = c, lastUsed = now\<rparr>]\<rparr>)"

definition shutdown :: "sys \<Rightarrow> sys" where
  "shutdown s = s\<lparr>ended := ended s @ map conn (pool s), pool := []\<rparr>"

text \<open>Sequences of pool operations, each at its time.\<close>

datatype pool_op = Get "string option" | Return nat | Cleanup | Shutdown

fun pool_step :: "config \<Rightarrow> int \<times> pool_op \<Rightarrow> sys \<Rightarrow> sys" where
  "pool_step cfg (now, Get outcome) s = snd (getConnection cfg now outcome s)"
| "pool_step cfg (now, Return c) s = returnConnection cfg now c s"
| "pool_step cfg (now, Cleanup) s = cleanupExpired cfg now s"
| "pool_step cfg (now, Shutdown) s = shutdown s"

fun pool_run :: "config \<Rightarrow> (int \<times> pool_op) list \<Rightarrow> sys \<Rightarrow> sys" where
  "pool_run cfg [] s = s"
| "pool_run cfg (x # xs) s = pool_run cfg xs (pool_step cfg x s)"

fun returnAll :: "config \<Rightarrow> (int \<times> nat) list \<Rightarrow> sys \<Rightarrow> sys" where
  "returnAll cfg [] s = s"
| "returnAll cfg ((now, c) # xs) s = returnAll cfg xs (returnConnection cfg now c s)"

section \<open>Command sanitization\<close>

definition is_space :: "char \<Rightarrow> bool" where
  "is_space c = (c \<in> set [CHR '' '', CHR 0x09, CHR 0x0A, CHR 0x0B, CHR 0x0C, CHR 0x0D, CHR 0xA0])"

definition trim :: "string \<Rightarrow> string" where
  "trim s = rev (dropWhile is_space (rev (dropWhile is_space s)))"

text \<open>The regular expressions of \<open>DANGEROUS_PATTERNS\<close> use literal characters and
  \<open>\s*\<close> only.\<close>

datatype tok = Lit char | Spaces

fun match_here :: "tok list \<Rightarrow> string \<Rightarrow> bool" where
  "match_here [] s = True"
| "match_here (Lit c # p) [] = False"
| "match_here (Lit c # p) (x # s) = (x = c \<and> match_here p s)"
| "match_here (Spaces # p) [] = match_here p []"
| "match_here (Spaces # p) (x # s) = (match_here p (x # s) \<or> (is_space x \<and> match_here (Spaces # p) s))"

fun regex_test :: "tok list \<Rightarrow> string \<Rightarrow> bool" where
  "regex_test p [] = match_here p []"
| "regex_test p (x # s) = (match_here p (x # s) \<or> regex_test p s)"

text \<open>Each pattern with its \<open>source\<close> text.\<close>

definition DANGEROUS_PATTERNS :: "(tok list \<times> string) list" where
  "DANGEROUS_PATTERNS =
     [([Lit (CHR '';'')], '';''),
      ([Lit (CHR ''&''), Lit (CHR ''&'')], ''&&''),
      ([Lit (CHR ''|''), Lit (CHR ''|'')], [CHR 0x5C, CHR ''|'', CHR 0x5C, CHR ''|'']),
      ([Lit (CHR ''|'')], [CHR 0x5C, CHR ''|'']),
      ([Lit (CHR 0x60)], [CHR 0x60]),
      ([Lit (CHR ''$''), Lit (CHR ''('')], [CHR 0x5C, CHR ''$'', CHR 0x5C, CHR ''('']),
      ([Lit (CHR ''>''), Spaces, Lit (CHR ''&'')], [CHR ''>'', CHR 0x5C, CHR ''s'', CHR ''*'', CHR ''&'']),
      ([Lit (CHR ''&''), Spaces, Lit (CHR ''>'')], [CHR ''&'', CHR 0x5C, CHR ''s'', CHR ''*'', CHR ''>''])]"

definition max_chars_text :: "nat option \<Rightarrow> string" where
  "max_chars_text m = (case m of None \<Rightarrow> ''Infinity'' | Some n \<Rightarrow> show_nat n)"

definition sanitizeCommand :: "config \<Rightarrow> string \<Rightarrow> McpError + string" where
  "sanitizeCommand cfg command =
     (let trimmedCommand = trim command
      in if trimmedCommand = [] then Inl (McpError InvalidParams ''Command cannot be empty'')
         else if (case MAX_CHARS cfg of None \<Rightarrow> False | Some m \<Rightarrow> length trimmedCommand > m)
         then Inl (McpError InvalidParams
                (''Command is too long (max '' @ max_chars_text (MAX_CHARS cfg) @ '' characters)''))
         else if STRICT_MODE cfg
         then (case find (\<lambda>pattern. regex_test (fst pattern) trimmedCommand) DANGEROUS_PATTERNS of
                 Some pattern \<Rightarrow> Inl (McpError InvalidParams
                   (''Command contains potentially dangerous pattern (strict mode enabled): ''
                      @ snd pattern))
               | None \<Rightarrow> Inr trimmedCommand)
         else Inr trimmedCommand)"

fun replace_quote :: "string \<Rightarrow> string" where
  "replace_quote [] = []"
| "replace_quote (c # s) =
     (if c = CHR 0x27 then [CHR 0x27, CHR 0x22, CHR 0x27, CHR 0x22, CHR 0x27] @ replace_quote s
      else c # replace_quote s)"

definition escapeCommandForShell :: "string \<Rightarrow> string" where
  "escapeCommandForShell command = replace_quote command"

section \<open>Remote and local paths\<close>

definition startsWith :: "string \<Rightarrow> string \<Rightarrow> bool" where
  "startsWith s p = (take (length p) s = p)"

text \<open>\<open>expandRemotePath\<close> returns a promise: \<open>Inr\<close> is the value it resolves with,
  \<open>Inl\<close> a rejection. The callback of \<open>sftp.realpath\<close> receives an error (\<open>Inl\<close>, its
  message) or the resolved path.\<close>

definition expandRemotePath :: "(string \<Rightarrow> string + string) \<Rightarrow> string \<Rightarrow> string + string" where
  "expandRemotePath realpath remotePath =
     (if \<not> startsWith remotePath ''~'' then Inr remotePath
      else
        let pathToResolve = (if remotePath = ''~'' then ''~'' else remotePath)
        in (case realpath pathToResolve of
              Inl err \<Rightarrow> Inr remotePath
            | Inr resolvedPath \<Rightarrow> Inr resolvedPath))"

text \<open>The local machine as the validation functions see it: the library functions of
  \<open>path\<close>, \<open>os\<close> and \<open>fs\<close>. \<open>os.homedir\<close>, \<open>path.join\<close>, \<open>path.resolve\<close>,
  \<open>path.dirname\<close> and \<open>fs.statSync\<close> return a value (\<open>Inr\<close>) or throw (\<open>Inl\<close>, the
  message of the exception); \<open>statSync\<close> tells whether the path is a regular file.
  \<open>existsSync\<close> never throws, and a throwing \<open>accessSync\<close> is caught where it is called:
  \<open>access_R\<close> and \<open>access_W\<close> say whether it returned.\<close>

record local_fs =
  homedir :: "string + string"
  path_join :: "string \<Rightarrow> string \<Rightarrow> string + string"
  path_resolve :: "string \<Rightarrow> string + string"
  path_dirname :: "string \<Rightarrow> string + string"
  existsSync :: "string \<Rightarrow> bool"
  statSync_isFile :: "string \<Rightarrow> string + bool"
  access_R :: "string \<Rightarrow> bool"
  access_W :: "string \<Rightarrow> bool"

record validation =
  valid :: bool
  normalizedPath :: string
  error :: "string option"
  suggestion :: "string option"

text \<open>Expanding \<open>~\<close> to the home directory, the first step of both validation functions.\<close>

definition expand_home :: "local_fs \<Rightarrow> string \<Rightarrow> string + string" where
  "expand_home fs localPath =
     (if startsWith localPath ''~/''
      then (case homedir fs of
              Inl msg \<Rightarrow> Inl msg
            | Inr home \<Rightarrow> path_join fs home (drop 2 localPath))
      else if localPath = ''~'' then homedir fs
      else Inr localPath)"

text \<open>The \<open>catch\<close> branch around the body of both validation functions.\<close>

definition path_validation_error :: "string \<Rightarrow> string \<Rightarrow> validation" where
  "path_validation_error localPath msg =
     \<lparr>valid = False, normalizedPath = localPath,
      error = Some (''Path validation error: '' @ msg), suggestion = None\<rparr>"

definition quoted :: "string \<Rightarrow> string" where
  "quoted s = [CHR 0x27] @ s @ [CHR 0x27]"

definition dquoted :: "string \<Rightarrow> string" where
  "dquoted s = [CHR 0x22] @ s @ [CHR 0x22]"

definition validateLocalDownloadPath :: "local_fs \<Rightarrow> string \<Rightarrow> validation" where
  "validateLocalDownloadPath fs localPath =
     (case expand_home fs localPath of
        Inl msg \<Rightarrow> path_validation_error localPath msg
      | Inr expanded \<Rightarrow>
          (case path_resolve fs expanded of
             Inl msg \<Rightarrow> path_validation_error localPath msg
           | Inr normalized \<Rightarrow>
               (case path_dirname fs normalized of
                  Inl msg \<Rightarrow> path_validation_error localPath msg
                | Inr parentDir \<Rightarrow>
                    if \<not> existsSync fs parentDir
                    then \<lparr>valid = False, normalizedPath = normalized,
                          error = Some (''Local directory '' @ quoted parentDir @ '' does not exist''),
                          suggestion = Some (''Create it first with: mkdir -p '' @ dquoted parentDir)\<rparr>
                    else if \<not> access_W fs parentDir
                    then \<lparr>valid = False, normalizedPath = normalized,
                          error = Some (''Local directory '' @ quoted parentDir @ '' is not writable''),
                          suggestion = Some (''Check permissions with: ls -ld '' @ dquoted parentDir)\<rparr>
                    else \<lparr>valid = True, normalizedPath = normalized,
                          error = None, suggestion = None\<rparr>)))"

definition validateLocalUploadPath :: "local_fs \<Rightarrow> string \<Rightarrow> validation" where
  "validateLocalUploadPath fs localPath =
     (case expand_home fs localPath of
        Inl msg \<Rightarrow> path_validation_error localPath msg
      | Inr expanded \<Rightarrow>
          (case path_resolve fs expanded of
             Inl msg \<Rightarrow> path_validation_error localPath msg
           | Inr normalized \<Rightarrow>
               if \<not> existsSync fs normalized
               then \<lparr>valid = False, normalizedPath = normalized,
                     error = Some (''Local file '' @ quoted normalized @ '' does not exist''),
                     suggestion = Some ''Check the file path and ensure the file exists''\<rparr>
               else (case statSync_isFile fs normalized of
                       Inl msg \<Rightarrow> path_validation_error localPath msg
                     | Inr isFile \<Rightarrow>
                         if \<not> isFile
                         then \<lparr>valid = False, normalizedPath = normalized,
                               error = Some (''Path '' @ quoted normalized @ '' is not a file''),
                               suggestion = Some (''Ensure you'' @ [CHR 0x27]
                                 @ ''re specifying a file, not a directory'')\<rparr>
                         else if \<not> access_R fs normalized
                         then \<lparr>valid = False, normalizedPath = normalized,
                               error = Some (''Local file '' @ quoted normalized @ '' is not readable''),
                               suggestion = Some (''Check permissions with: ls -l ''
                                 @ dquoted normalized)\<rparr>
                         else \<lparr>valid = True, normalizedPath = normalized,
                               error = None, suggestion = None\<rparr>)))"

text \<open>The message of a failed validation: the error, a full stop, a space and the suggestion
  (empty when there is none), trimmed. A missing \<open>error\<close> would print as \<open>undefined\<close>.\<close>

definition validation_message :: "validation \<Rightarrow> string" where
  "validation_message v =
     trim ((case error v of None \<Rightarrow> ''undefined'' | Some e \<Rightarrow> e) @ ''. ''
           @ (case suggestion v of None \<Rightarrow> [] | Some g \<Rightarrow> g))"

section \<open>File transfer\<close>

text \<open>What the remote side and the key file do during one request: the error of reading
  the key file in \<open>buildSshConfig\<close>, of connecting, of opening the SFTP channel, the
  answers of \<open>realpath\<close> and \<open>stat\<close> (an error, or whether the path is a regular file),
  and the error of the transfer itself (\<open>None\<close>: no error).\<close>

record remote =
  key_read :: "string option"
  connect :: "string option"
  sftp_open :: "string option"
  realpath :: "string \<Rightarrow> string + string"
  stat :: "string \<Rightarrow> string + bool"
  transfer :: "string option"

definition str_includes :: "string \<Rightarrow> string \<Rightarrow> bool" where
  "str_includes s sub = regex_test (map Lit sub) s"

definition upload_error_message :: "string \<Rightarrow> string \<Rightarrow> string" where
  "upload_error_message msg expandedRemotePath =
     (if str_includes msg ''No such file'' \<or> str_includes msg ''not found''
      then ''Upload failed: Remote directory may not exist. Verify the remote path ''
             @ quoted expandedRemotePath @ '' or create the parent directory first.''
      else if str_includes msg ''Permission denied''
      then ''Upload failed: Permission denied for remote path '' @ quoted expandedRemotePath
             @ ''. Check file permissions on remote server.''
      else ''Upload failed: '' @ msg)"

text \<open>A request's promise: \<open>None\<close> when it never settles, else the rejection (\<open>Inl\<close>) or
  the text it resolves with. The request starts at \<open>t0\<close>; the callbacks of the remote
  side run at \<open>t1\<close>.\<close>

definition uploadFile ::
  "config \<Rightarrow> local_fs \<Rightarrow> remote \<Rightarrow> int \<Rightarrow> int \<Rightarrow> string \<Rightarrow> string \<Rightarrow> sys
     \<Rightarrow> (McpError + string) option \<times> sys" where
  "uploadFile cfg fs w t0 t1 localPath remotePath s =
     (let localPathValidation = validateLocalUploadPath fs localPath
      in if \<not> valid localPathValidation
         then (Some (Inl (McpError InvalidParams (validation_message localPathValidation))), s)
         else
           let normalizedLocalPath = normalizedPath localPathValidation
           in (case getConnection cfg t0 (connect w) s of
                 (Inl msg, s1) \<Rightarrow>
                   (Some (Inl (McpError InternalError (''Upload connection error: '' @ msg))), s1)
               | (Inr c, s1) \<Rightarrow>
                   (case sftp_open w of
                      Some msg \<Rightarrow>
                        (Some (Inl (McpError InternalError (''SFTP session error: '' @ msg))),
                         returnConnection cfg t1 c s1)
                    | None \<Rightarrow>
                        (case expandRemotePath (realpath w) remotePath of
                           Inl e \<Rightarrow> (None, s1)
                         | Inr expandedRemotePath \<Rightarrow>
                             (case transfer w of
                                Some msg \<Rightarrow>
                                  (Some (Inl (McpError InternalError
                                     (upload_error_message msg expandedRemotePath))),
                                   returnConnection cfg t1 c s1)
                              | None \<Rightarrow>
                                  (Some (Inr (''File uploaded successfully: '' @ normalizedLocalPath
                                     @ '' -> '' @ expandedRemotePath @ '' ('' @ show_int (t1 - t0)
                                     @ ''ms)'')),
                                   returnConnection cfg t1 c s1))))))"

definition downloadFile ::
  "config \<Rightarrow> local_fs \<Rightarrow> remote \<Rightarrow> int \<Rightarrow> int \<Rightarrow> string \<Rightarrow> string \<Rightarrow> sys
     \<Rightarrow> (McpError + string) option \<times> sys" where
  "downloadFile cfg fs w t0 t1 remotePath localPath s =
     (let localPathValidation = validateLocalDownloadPath fs localPath
      in if \<not> valid localPathValidation
         then (Some (Inl (McpError InvalidParams (validation_message localPathValidation))), s)
         else
           let normalizedLocalPath = normalizedPath localPathValidation
           in (case getConnection cfg t0 (connect w) s of
                 (Inl msg, s1) \<Rightarrow>
                   (Some (Inl (McpError InternalError (''Download connection error: '' @ msg))), s1)
               | (Inr c, s1) \<Rightarrow>
                   (case sftp_open w of
                      Some msg \<Rightarrow>
                        (Some (Inl (McpError InternalError (''SFTP session error: '' @ msg))),
                         returnConnection cfg t1 c s1)
                    | None \<Rightarrow>
                        (case expandRemotePath (realpath w) remotePath of
                           Inl e \<Rightarrow> (None, s1)
                         | Inr expandedRemotePath \<Rightarrow>
                             (case stat w expandedRemotePath of
                                Inl statErr \<Rightarrow>
                                  (Some (Inl (McpError InvalidParams
                                     (''Remote file '' @ quoted expandedRemotePath
                                        @ '' does not exist or is not accessible. Use the ''
                                        @ quoted ''listFiles'' @ '' tool to verify the file path.''))),
                                   returnConnection cfg t1 c s1)
                              | Inr isFile \<Rightarrow>
                                  if \<not> isFile
                                  then (Some (Inl (McpError InvalidParams
                                          (''Remote path '' @ quoted expandedRemotePath
                                             @ '' is not a file (it'' @ [CHR 0x27]
                                             @ ''s a directory). Specify a file path instead.''))),
                                        returnConnection cfg t1 c s1)
                                  else (case transfer w of
                                          Some msg \<Rightarrow>
                                            (Some (Inl (McpError InternalError
                                               (''Download failed: '' @ msg))),
                                             returnConnection cfg t1 c s1)
                                        | None \<Rightarrow>
                                            (Some (Inr (''File downloaded successfully: ''
                                               @ expandedRemotePath @ '' -> '' @ normalizedLocalPath
                                               @ '' ('' @ show_int (t1 - t0) @ ''ms)'')),
                                             returnConnection cfg t1 c s1)))))))"

text \<open>The tool handlers: admission first, then \<open>buildSshConfig\<close>, then the operation.\<close>

definition upload_tool ::
  "config \<Rightarrow> local_fs \<Rightarrow> remote \<Rightarrow> int \<Rightarrow> int \<Rightarrow> string \<Rightarrow> string \<Rightarrow> sys
     \<Rightarrow> (McpError + string) option \<times> sys" where
  "upload_tool cfg fs w t0 t1 localPath remotePath s =
     (case checkLimit cfg t0 (requests s) of
        (Inl e, rs) \<Rightarrow> (Some (Inl e), s\<lparr>requests := rs\<rparr>)
      | (Inr u, rs) \<Rightarrow>
          (case key_read w of
             Some msg \<Rightarrow>
               (Some (Inl (McpError InternalError (''Upload failed: '' @ msg))), s\<lparr>requests := rs\<rparr>)
           | None \<Rightarrow> uploadFile cfg fs w t0 t1 localPath remotePath (s\<lparr>requests := rs\<rparr>)))"

definition download_tool ::
  "config \<Rightarrow> local_fs \<Rightarrow> remote \<Rightarrow> int \<Rightarrow> int \<Rightarrow> string \<Rightarrow> string \<Rightarrow> sys
     \<Rightarrow> (McpError + string) option \<times> sys" where
  "download_tool cfg fs w t0 t1 remotePath localPath s =
     (case checkLimit cfg t0 (requests s) of
        (Inl e, rs) \<Rightarrow> (Some (Inl e), s\<lparr>requests := rs\<rparr>)
      | (Inr u, rs) \<Rightarrow>
          (case key_read w of
             Some msg \<Rightarrow>
               (Some (Inl (McpError InternalError (''Download failed: '' @ msg))), s\<lparr>requests := rs\<rparr>)
           | None \<Rightarrow> downloadFile cfg fs w t0 t1 remotePath localPath (s\<lparr>requests := rs\<rparr>)))"

section \<open>Command execution\<close>

datatype exec_result = Resolved string | Rejected McpError

text \<open>The variables one call of \<open>execSshCommand\<close> closes over. A timer is \<open>True\<close> while it
  is pending; \<open>execPending\<close> and \<open>abortPending\<close> say that the callback of the respective
  \<open>conn.exec\<close> has not run yet; \<open>streamOpen\<close> and \<open>abortStreamOpen\<close> that the handlers are
  registered and the stream has not closed. \<open>issued\<close> lists the commands given to
  \<open>conn.exec\<close>, \<open>settled\<close> the calls of \<open>resolve\<close> and \<open>reject\<close> in order: the promise takes
  the first.\<close>

record exec_state =
  xconn :: nat
  xcommand :: string
  startTime :: int
  isResolved :: bool
  timeoutId :: bool
  abortTimeout :: bool
  execPending :: bool
  streamOpen :: bool
  abortPending :: bool
  abortStreamOpen :: bool
  stdout :: string
  stderr :: string
  issued :: "string list"
  settled :: "exec_result list"

definition promise :: "exec_state \<Rightarrow> exec_result option" where
  "promise st = (case settled st of [] \<Rightarrow> None | r # rs \<Rightarrow> Some r)"

definition exec_init :: "nat \<Rightarrow> string \<Rightarrow> int \<Rightarrow> exec_state" where
  "exec_init c command t0 =
     \<lparr>xconn = c, xcommand = command, startTime = t0, isResolved = False,
      timeoutId = True, abortTimeout = False, execPending = True, streamOpen = False,
      abortPending = False, abortStreamOpen = False, stdout = [], stderr = [],
      issued = [command], settled = []\<rparr>"

text \<open>\<open>execSshCommand\<close> up to the point where the timer is set and the command is issued:
  it rejects when no connection can be had.\<close>

definition execSshCommand ::
  "config \<Rightarrow> remote \<Rightarrow> int \<Rightarrow> string \<Rightarrow> sys \<Rightarrow> (McpError + exec_state) \<times> sys" where
  "execSshCommand cfg w t0 command s =
     (case getConnection cfg t0 (connect w) s of
        (Inl msg, s1) \<Rightarrow> (Inl (McpError InternalError (''SSH connection error: '' @ msg)), s1)
      | (Inr c, s1) \<Rightarrow> (Inr (exec_init c command t0), s1))"

definition exec_tool ::
  "config \<Rightarrow> remote \<Rightarrow> int \<Rightarrow> string \<Rightarrow> sys \<Rightarrow> (McpError + exec_state) \<times> sys" where
  "exec_tool cfg w t0 command s =
     (case checkLimit cfg t0 (requests s) of
        (Inl e, rs) \<Rightarrow> (Inl e, s\<lparr>requests := rs\<rparr>)
      | (Inr u, rs) \<Rightarrow>
          (case sanitizeCommand cfg command of
             Inl e \<Rightarrow> (Inl e, s\<lparr>requests := rs\<rparr>)
           | Inr sanitizedCommand \<Rightarrow>
               (case key_read w of
                  Some msg \<Rightarrow>
                    (Inl (McpError InternalError (''Unexpected error: '' @ msg)), s\<lparr>requests := rs\<rparr>)
                | None \<Rightarrow> execSshCommand cfg w t0 sanitizedCommand (s\<lparr>requests := rs\<rparr>))))"

definition timeout_error :: "config \<Rightarrow> McpError" where
  "timeout_error cfg =
     McpError InternalError
       (''Command execution timed out after '' @ show_int (DEFAULT_TIMEOUT cfg) @ ''ms'')"

definition abort_command :: "string \<Rightarrow> string" where
  "abort_command command =
     ''timeout 3s pkill -f '' @ [CHR 0x27] @ escapeCommandForShell command @ [CHR 0x27]
       @ '' 2>/dev/null || true''"

definition close_result :: "exec_state \<Rightarrow> int \<Rightarrow> exec_result" where
  "close_result st code =
     (if code \<noteq> 0
      then
        let errorMsg = (if stderr st \<noteq> [] then stderr st
                        else if stdout st \<noteq> [] then stdout st
                        else ''Command failed'')
        in Rejected (McpError InternalError
             (''Command failed (exit code '' @ show_int code @ ''):'' @ [CHR 0x0A] @ errorMsg))
      else Resolved (stdout st))"

text \<open>The events of one command execution, in the order the event loop delivers them: the
  deadline timer, the callback of \<open>conn.exec\<close> (with an error or a stream), data and close
  of the stream, and the same for the abort command with its own timer. An event whose
  handler is not registered, or whose timer is not pending, does nothing.

  \<open>conn.exec\<close> is a library call that throws when the connection has no writable socket
  (a pooled connection gone stale). \<open>ExecThrows\<close> is the first \<open>conn.exec(command)\<close>
  throwing right after the timer was set: the exception leaves the executor, no callback will
  run, nothing is settled and the timer stays pending. \<open>TimeoutFiresExecThrows\<close> is the
  deadline timer firing with \<open>conn.exec\<close> of the abort command throwing inside the
  callback: \<open>isResolved\<close> and the abort timer are already set, and the exception ends the
  callback before \<open>reject\<close> is reached. \<open>TimeoutFires\<close> is the deadline timer firing with
  \<open>conn.exec\<close> returning.\<close>

datatype event =
    ExecThrows
  | TimeoutFires
  | TimeoutFiresExecThrows
  | ExecCallback "string option"
  | StdoutData string
  | StderrData string
  | StreamClose int
  | AbortTimeoutFires
  | AbortCallback bool
  | AbortStreamClose

fun step :: "config \<Rightarrow> int \<times> event \<Rightarrow> exec_state \<times> sys \<Rightarrow> exec_state \<times> sys" where
  "step cfg (now, TimeoutFires) (st, s) =
     (if \<not> timeoutId st then (st, s)
      else if \<not> isResolved st
      then (st\<lparr>timeoutId := False, isResolved := True, abortTimeout := True, abortPending := True,
               issued := issued st @ [abort_command (xcommand st)],
               settled := settled st @ [Rejected (timeout_error cfg)]\<rparr>, s)
      else (st\<lparr>timeoutId := False\<rparr>, s))"
| "step cfg (now, TimeoutFiresExecThrows) (st, s) =
     (if \<not> timeoutId st then (st, s)
      else if \<not> isResolved st
      then (st\<lparr>timeoutId := False, isResolved := True, abortTimeout := True\<rparr>, s)
      else (st\<lparr>timeoutId := False\<rparr>, s))"
| "step cfg (now, ExecThrows) (st, s) =
     (if \<not> execPending st then (st, s) else (st\<lparr>execPending := False\<rparr>, s))"
| "step cfg (now, AbortTimeoutFires) (st, s) =
     (if \<not> abortTimeout st then (st, s)
      else (st\<lparr>abortTimeout := False\<rparr>, returnConnection cfg now (xconn st) s))"
| "step cfg (now, AbortCallback hasStream) (st, s) =
     (if \<not> abortPending st then (st, s)
      else if hasStream then (st\<lparr>abortPending := False, abortStreamOpen := True\<rparr>, s)
      else (st\<lparr>abortPending := False, abortTimeout := False\<rparr>,
            returnConnection cfg now (xconn st) s))"
| "step cfg (now, AbortStreamClose) (st, s) =
     (if \<not> abortStreamOpen st then (st, s)
      else (st\<lparr>abortStreamOpen := False, abortTimeout := False\<rparr>,
            returnConnection cfg now (xconn st) s))"
| "step cfg (now, ExecCallback (Some msg)) (st, s) =
     (if \<not> execPending st then (st, s)
      else if \<not> isResolved st
      then (st\<lparr>execPending := False, isResolved := True, timeoutId := False,
               settled := settled st @ [Rejected (McpError InternalError (''SSH exec error: '' @ msg))]\<rparr>,
            returnConnection cfg now (xconn st) s)
      else (st\<lparr>execPending := False\<rparr>, s))"
| "step cfg (now, ExecCallback None) (st, s) =
     (if \<not> execPending st then (st, s)
      else (st\<lparr>execPending := False, streamOpen := True\<rparr>, s))"
| "step cfg (now, StreamClose code) (st, s) =
     (if \<not> streamOpen st then (st, s)
      else if \<not> isResolved st
      then (st\<lparr>streamOpen := False, isResolved := True, timeoutId := False,
               settled := settled st @ [close_result st code]\<rparr>,
            returnConnection cfg now (xconn st) s)
      else (st\<lparr>streamOpen := False\<rparr>, s))"
| "step cfg (now, StdoutData d) (st, s) =
     (if \<not> streamOpen st then (st, s) else (st\<lparr>stdout := stdout st @ d\<rparr>, s))"
| "step cfg (now, StderrData d) (st, s) =
     (if \<not> streamOpen st then (st, s) else (st\<lparr>stderr := stderr st @ d\<rparr>, s))"

fun run :: "config \<Rightarrow> (int \<times> event) list \<Rightarrow> exec_state \<times> sys \<Rightarrow> exec_state \<times> sys" where
  "run cfg [] x = x"
| "run cfg (e # es) x = run cfg es (step cfg e x)"

section \<open>Auxiliary definitions and example data\<close>

text \<open>Configurations that differ from the defaults in one or two settings.\<close>

definition cfg_rate :: config where
  "cfg_rate = default_config\<lparr>RATE_LIMIT_MAX := 1, RATE_LIMIT_WINDOW := 1000\<rparr>"

definition cfg_rate3 :: config where
  "cfg_rate3 = default_config\<lparr>RATE_LIMIT_MAX := 3, RATE_LIMIT_WINDOW := 5000\<rparr>"

definition cfg_pool2 :: config where
  "cfg_pool2 = default_config\<lparr>POOL_MAX_SIZE := 2\<rparr>"

definition cfg_timeout :: config where
  "cfg_timeout = default_config\<lparr>DEFAULT_TIMEOUT := 100\<rparr>"

text \<open>The pool entry that a release of connection \<open>c\<close> at time \<open>t\<close> pushes.\<close>

definition mk_pooled :: "int \<times> nat \<Rightarrow> PooledConnection" where
  "mk_pooled x = \<lparr>conn = snd x, lastUsed = fst x\<rparr>"

text \<open>Two requests leave the same sessions when the pool, the closed connections and the
  number of created connections agree.\<close>

definition same_sessions :: "sys \<Rightarrow> sys \<Rightarrow> bool" where
  "same_sessions s s' = (pool s' = pool s \<and> ended s' = ended s \<and> connects s' = connects s)"

text \<open>The output of a command as a list of timed chunks, on standard output (\<open>Inl\<close>) or
  standard error (\<open>Inr\<close>): the events that deliver it and the text accumulated on each
  stream.\<close>

fun data_event :: "int \<times> (string + string) \<Rightarrow> int \<times> event" where
  "data_event (t, Inl d) = (t, StdoutData d)"
| "data_event (t, Inr d) = (t, StderrData d)"

fun outs :: "(int \<times> (string + string)) list \<Rightarrow> string" where
  "outs [] = []"
| "outs ((t, Inl d) # ds) = d @ outs ds"
| "outs ((t, Inr d) # ds) = outs ds"

fun errs :: "(int \<times> (string + string)) list \<Rightarrow> string" where
  "errs [] = []"
| "errs ((t, Inl d) # ds) = errs ds"
| "errs ((t, Inr d) # ds) = d @ errs ds"

text \<open>The invariant of one command execution: the promise is settled at most once, and only
  with \<open>isResolved\<close> set; until \<open>isResolved\<close> is set the deadline timer is pending.\<close>

definition exec_inv :: "exec_state \<Rightarrow> bool" where
  "exec_inv st =
     (if isResolved st then length (settled st) \<le> 1 else settled st = [] \<and> timeoutId st)"

text \<open>Remote sides, local file systems and process states used as concrete inputs.\<close>

definition realpath_denied :: "string \<Rightarrow> string + string" where
  "realpath_denied p = Inl ''Permission denied''"

definition realpath_home :: "string \<Rightarrow> string + string" where
  "realpath_home p = Inr (''/home/user'' @ drop 1 p)"

definition remote_ok :: remote where
  "remote_ok = \<lparr>key_read = None, connect = None, sftp_open = None,
                 realpath = (\<lambda>p. Inr p), stat = (\<lambda>p. Inr True), transfer = None\<rparr>"

definition fs_empty :: local_fs where
  "fs_empty = \<lparr>homedir = Inr ''/home/user'',
                path_join = (\<lambda>a b. Inr (a @ ''/'' @ b)),
                path_resolve = (\<lambda>p. Inr p),
                path_dirname = (\<lambda>p. Inr ''/nonexistent''),
                existsSync = (\<lambda>p. False),
                statSync_isFile = (\<lambda>p. Inl ''ENOENT''),
                access_R = (\<lambda>p. False),
                access_W = (\<lambda>p. False)\<rparr>"

definition fs_no_cwd :: local_fs where
  "fs_no_cwd = fs_empty\<lparr>path_resolve := (\<lambda>p. Inl ''ENOENT: no such file or directory, uv_cwd'')\<rparr>"

definition sys_two :: sys where
  "sys_two = \<lparr>requests = [], pool = [\<lparr>conn = 0, lastUsed = 0\<rparr>, \<lparr>conn = 1, lastUsed = 500000\<rparr>],
               ended = [], connects = 2\<rparr>"

definition sys_started :: sys where
  "sys_started = \<lparr>requests = [0], pool = [], ended = [], connects = 1\<rparr>"

definition sys_busy :: sys where
  "sys_busy = \<lparr>requests = [900], pool = [\<lparr>conn = 0, lastUsed = 900\<rparr>], ended = [], connects = 1\<rparr>"


section \<open>Verified properties\<close>

subsection \<open>Admission control\<close>

lemma checkLimit_enabled:
  "RATE_LIMIT_ENABLED cfg \<Longrightarrow>
   checkLimit cfg now rs =
     (if RATE_LIMIT_MAX cfg \<le> int (length (filter (\<lambda>time. now - RATE_LIMIT_WINDOW cfg < time) rs))
      then (Inl (McpError InvalidRequest (rate_limit_message cfg)),
            filter (\<lambda>time. now - RATE_LIMIT_WINDOW cfg < time) rs)
      else (Inr (), filter (\<lambda>time. now - RATE_LIMIT_WINDOW cfg < time) rs @ [now]))"
  by (simp add: checkLimit_def Let_def)

lemma checkLimit_admit:
  assumes "RATE_LIMIT_ENABLED cfg"
    and "\<forall>t\<in>set rs. now - RATE_LIMIT_WINDOW cfg < t"
    and "int (length rs) < RATE_LIMIT_MAX cfg"
  shows "checkLimit cfg now rs = (Inr (), rs @ [now])"
proof -
  have "filter (\<lambda>time. now - RATE_LIMIT_WINDOW cfg < time) rs = rs"
    using assms(2) by (simp add: filter_id_conv)
  then show ?thesis using assms(1,3) by (simp add: checkLimit_enabled)
qed

lemma checkLimit_deny:
  assumes "RATE_LIMIT_ENABLED cfg"
    and "\<forall>t\<in>set rs. now - RATE_LIMIT_WINDOW cfg < t"
    and "RATE_LIMIT_MAX cfg \<le> int (length rs)"
  shows "checkLimit cfg now rs = (Inl (McpError InvalidRequest (rate_limit_message cfg)), rs)"
proof -
  have "filter (\<lambda>time. now - RATE_LIMIT_WINDOW cfg < time) rs = rs"
    using assms(2) by (simp add: filter_id_conv)
  then show ?thesis using assms(1,3) by (simp add: checkLimit_enabled)
qed

lemma checkLimit_after_window:
  assumes "RATE_LIMIT_ENABLED cfg"
    and "\<forall>t\<in>set rs. t \<le> now - RATE_LIMIT_WINDOW cfg"
    and "0 < RATE_LIMIT_MAX cfg"
  shows "checkLimit cfg now rs = (Inr (), [now])"
proof -
  have "filter (\<lambda>time. now - RATE_LIMIT_WINDOW cfg < time) rs = []"
    using assms(2) by (auto simp: filter_empty_conv)
  then show ?thesis using assms(1,3) by (simp add: checkLimit_enabled)
qed

lemma checkLimits_append:
  "checkLimits cfg (xs @ ys) rs =
     (case checkLimits cfg xs rs of
        (r1, rs1) \<Rightarrow> (case checkLimits cfg ys rs1 of (r2, rs2) \<Rightarrow> (r1 @ r2, rs2)))"
  by (induction xs arbitrary: rs) (auto split: prod.splits)

lemma checkLimits_burst:
  assumes "RATE_LIMIT_ENABLED cfg"
  shows "(\<forall>t\<in>set rs \<union> set ts. \<forall>t'\<in>set ts. t' - RATE_LIMIT_WINDOW cfg < t) \<Longrightarrow>
     int (length rs + length ts) \<le> RATE_LIMIT_MAX cfg \<Longrightarrow>
     checkLimits cfg ts rs = (replicate (length ts) (Inr ()), rs @ ts)"
proof (induction ts arbitrary: rs)
  case Nil
  then show ?case by simp
next
  case (Cons t ts)
  have a: "checkLimit cfg t rs = (Inr (), rs @ [t])"
    using Cons.prems by (intro checkLimit_admit[OF assms]) auto
  have b: "checkLimits cfg ts (rs @ [t]) = (replicate (length ts) (Inr ()), (rs @ [t]) @ ts)"
    using Cons.prems by (intro Cons.IH) auto
  show ?case using a b by simp
qed

text \<open>
  C4, as stated, at the boundary: with \<open>max = 1\<close> and \<open>windowMs = 1000\<close>, a window holding the
  timestamp \<open>0\<close> and a check at \<open>now = 1000\<close>. The timestamp is not older than
  \<open>now - windowMs = 0\<close>, so dropping the older ones leaves one entry and the claim has the check
  fail; \<open>checkLimit\<close> filters with \<open>time > windowStart\<close>, drops it and admits.
\<close>

theorem checkLimit_boundary_counterexample:
  "\<not> (isl (fst (checkLimit cfg_rate 1000 [0]))
       = (RATE_LIMIT_MAX cfg_rate
            \<le> int (length (dropOlderThan (1000 - RATE_LIMIT_WINDOW cfg_rate) [0]))))"
  by (simp add: checkLimit_def dropOlderThan_def cfg_rate_def default_config_def)

text \<open>
  C4, amended. Disabled, \<open>checkLimit\<close> succeeds and leaves the window as it is. Enabled, it
  drops every recorded timestamp that is not newer than \<open>now - windowMs\<close> (those with
  \<open>time \<le> now - windowMs\<close>, so also one that is exactly \<open>windowMs\<close> old), fails with the
  rate-limit error carrying \<open>max\<close> and \<open>windowMs\<close> if and only if at least \<open>max\<close> remain, and
  otherwise records \<open>now\<close>. Consequently, on a fresh limiter, \<open>max\<close> checks at times \<open>ts\<close> that
  lie within one window succeed, the next check \<open>tn\<close> in that window fails and records nothing,
  and once \<open>windowMs\<close> has elapsed since the admitted checks (\<open>later\<close>) admission succeeds again.
\<close>

theorem checkLimit_window:
  assumes "RATE_LIMIT_ENABLED cfg"
  shows "checkLimit (cfg\<lparr>RATE_LIMIT_ENABLED := False\<rparr>) now rs = (Inr (), rs)
    \<and> checkLimit cfg now rs =
        (let remaining = filter (\<lambda>time. \<not> time \<le> now - RATE_LIMIT_WINDOW cfg) rs
         in if int (length remaining) \<ge> RATE_LIMIT_MAX cfg
            then (Inl (McpError InvalidRequest
                    (''Rate limit exceeded: '' @ show_int (RATE_LIMIT_MAX cfg) @ '' requests per ''
                       @ show_int (RATE_LIMIT_WINDOW cfg) @ ''ms'')), remaining)
            else (Inr (), remaining @ [now]))
    \<and> (RATE_LIMIT_MAX cfg = int (length ts)
         \<and> (\<forall>t\<in>set ts. \<forall>t'\<in>set (ts @ [tn]). t' - RATE_LIMIT_WINDOW cfg < t)
       \<longrightarrow> checkLimits cfg (ts @ [tn]) [] =
             (replicate (length ts) (Inr ())
                @ [Inl (McpError InvalidRequest (rate_limit_message cfg))], ts)
           \<and> (0 < RATE_LIMIT_MAX cfg \<and> (\<forall>t\<in>set ts. t \<le> later - RATE_LIMIT_WINDOW cfg)
              \<longrightarrow> checkLimit cfg later ts = (Inr (), [later])))"
proof (intro conjI impI)
  show "checkLimit (cfg\<lparr>RATE_LIMIT_ENABLED := False\<rparr>) now rs = (Inr (), rs)"
    by (simp add: checkLimit_def)
next
  have "(\<lambda>time. \<not> time \<le> now - RATE_LIMIT_WINDOW cfg) = (\<lambda>time. now - RATE_LIMIT_WINDOW cfg < time)"
    by auto
  then show "checkLimit cfg now rs =
        (let remaining = filter (\<lambda>time. \<not> time \<le> now - RATE_LIMIT_WINDOW cfg) rs
         in if int (length remaining) \<ge> RATE_LIMIT_MAX cfg
            then (Inl (McpError InvalidRequest
                    (''Rate limit exceeded: '' @ show_int (RATE_LIMIT_MAX cfg) @ '' requests per ''
                       @ show_int (RATE_LIMIT_WINDOW cfg) @ ''ms'')), remaining)
            else (Inr (), remaining @ [now]))"
    using assms by (simp add: checkLimit_enabled Let_def rate_limit_message_def)
next
  assume h: "RATE_LIMIT_MAX cfg = int (length ts)
         \<and> (\<forall>t\<in>set ts. \<forall>t'\<in>set (ts @ [tn]). t' - RATE_LIMIT_WINDOW cfg < t)"
  have burst: "checkLimits cfg ts [] = (replicate (length ts) (Inr ()), [] @ ts)"
    using h by (intro checkLimits_burst[OF assms]) auto
  have deny: "checkLimit cfg tn ts = (Inl (McpError InvalidRequest (rate_limit_message cfg)), ts)"
    using h by (intro checkLimit_deny[OF assms]) auto
  show "checkLimits cfg (ts @ [tn]) [] =
             (replicate (length ts) (Inr ())
                @ [Inl (McpError InvalidRequest (rate_limit_message cfg))], ts)"
    using burst deny by (simp add: checkLimits_append)
next
  assume "0 < RATE_LIMIT_MAX cfg \<and> (\<forall>t\<in>set ts. t \<le> later - RATE_LIMIT_WINDOW cfg)"
  then show "checkLimit cfg later ts = (Inr (), [later])"
    by (intro checkLimit_after_window[OF assms]) auto
qed

text \<open>Witness: \<open>max = 3\<close>, \<open>windowMs = 5000\<close>, checks at 10, 11, 12, then 13, then 5012.\<close>

theorem checkLimit_window_witness:
  "RATE_LIMIT_ENABLED cfg_rate3
   \<and> RATE_LIMIT_MAX cfg_rate3 = int (length [10, 11, 12 :: int])
   \<and> 13 - RATE_LIMIT_WINDOW cfg_rate3 < 10
   \<and> 0 < RATE_LIMIT_MAX cfg_rate3
   \<and> 12 \<le> 5012 - RATE_LIMIT_WINDOW cfg_rate3
   \<and> checkLimits cfg_rate3 ([10, 11, 12] @ [13]) [] =
       ([Inr (), Inr (), Inr (), Inl (McpError InvalidRequest (rate_limit_message cfg_rate3))],
        [10, 11, 12])
   \<and> checkLimit cfg_rate3 5012 [10, 11, 12] = (Inr (), [5012])"
proof -
  have e: "RATE_LIMIT_ENABLED cfg_rate3"
    by (simp add: cfg_rate3_def default_config_def)
  have h: "RATE_LIMIT_MAX cfg_rate3 = int (length [10, 11, 12 :: int])
     \<and> (\<forall>t\<in>set [10, 11, 12]. \<forall>t'\<in>set ([10, 11, 12] @ [13]). t' - RATE_LIMIT_WINDOW cfg_rate3 < t)"
    by (simp add: cfg_rate3_def default_config_def)
  have g: "0 < RATE_LIMIT_MAX cfg_rate3 \<and> (\<forall>t\<in>set [10, 11, 12]. t \<le> 5012 - RATE_LIMIT_WINDOW cfg_rate3)"
    by (simp add: cfg_rate3_def default_config_def)
  show ?thesis
    using e h g checkLimit_window [OF e, where ts = "[10, 11, 12]" and tn = 13 and later = 5012 and now = 0 and rs = "[]"]
    by simp
qed

text \<open>
  C10. When \<open>checkLimit\<close> fails, the window it leaves is the old one with the expired
  timestamps filtered out: \<open>now\<close> is not recorded. A check at any time \<open>later\<close> that would be
  admitted on the window before the denial is admitted on the window after it.
\<close>

theorem checkLimit_denied_records_nothing:
  assumes "fst (checkLimit cfg now rs) = Inl e"
  shows "snd (checkLimit cfg now rs) = filter (\<lambda>time. now - RATE_LIMIT_WINDOW cfg < time) rs
    \<and> length (snd (checkLimit cfg now rs)) \<le> length rs
    \<and> (fst (checkLimit cfg later rs) = Inr ()
        \<longrightarrow> fst (checkLimit cfg later (snd (checkLimit cfg now rs))) = Inr ())"
proof -
  have en: "RATE_LIMIT_ENABLED cfg"
    using assms by (auto simp: checkLimit_def split: if_splits)
  have s: "snd (checkLimit cfg now rs) = filter (\<lambda>time. now - RATE_LIMIT_WINDOW cfg < time) rs"
    using assms en by (auto simp: checkLimit_enabled split: if_splits)
  have l: "length (filter (\<lambda>time. later - RATE_LIMIT_WINDOW cfg < time)
              (filter (\<lambda>time. now - RATE_LIMIT_WINDOW cfg < time) rs))
           \<le> length (filter (\<lambda>time. later - RATE_LIMIT_WINDOW cfg < time) rs)"
    by (induction rs) auto
  have c: "fst (checkLimit cfg later rs) = Inr ()
        \<longrightarrow> fst (checkLimit cfg later (snd (checkLimit cfg now rs))) = Inr ()"
    unfolding s using l by (auto simp: checkLimit_enabled[OF en] split: if_splits)
  show ?thesis using s c by simp
qed

text \<open>Witness: \<open>max = 1\<close>, \<open>windowMs = 1000\<close>, a denial at 500 and a check at 1000.\<close>

theorem checkLimit_denied_records_nothing_witness:
  "fst (checkLimit cfg_rate 500 [0]) = Inl (McpError InvalidRequest (rate_limit_message cfg_rate))
   \<and> snd (checkLimit cfg_rate 500 [0]) = [0]
   \<and> fst (checkLimit cfg_rate 1000 [0]) = Inr ()
   \<and> fst (checkLimit cfg_rate 1000 (snd (checkLimit cfg_rate 500 [0]))) = Inr ()"
proof -
  have d: "fst (checkLimit cfg_rate 500 [0]) = Inl (McpError InvalidRequest (rate_limit_message cfg_rate))"
    by (simp add: checkLimit_def cfg_rate_def default_config_def)
  have a: "fst (checkLimit cfg_rate 1000 [0]) = Inr ()"
    by (simp add: checkLimit_def cfg_rate_def default_config_def)
  show ?thesis
    using d a checkLimit_denied_records_nothing [OF d, where later = 1000]
    by (simp add: cfg_rate_def default_config_def)
qed

subsection \<open>Session pool: release\<close>

lemma returnAll_append:
  "returnAll cfg (xs @ ys) s = returnAll cfg ys (returnAll cfg xs s)"
  by (induction cfg xs s rule: returnAll.induct) auto

lemma returnAll_room:
  "POOL_ENABLED cfg \<Longrightarrow> int (length (pool s) + length xs) \<le> POOL_MAX_SIZE cfg \<Longrightarrow>
   returnAll cfg xs s = s\<lparr>pool := pool s @ map mk_pooled xs\<rparr>"
proof (induction cfg xs s rule: returnAll.induct)
  case (1 cfg s)
  then show ?case by simp
next
  case (2 cfg now c xs s)
  have r: "returnConnection cfg now c s = s\<lparr>pool := pool s @ [mk_pooled (now, c)]\<rparr>"
    using "2.prems" by (simp add: returnConnection_def mk_pooled_def)
  have "returnAll cfg xs (returnConnection cfg now c s)
      = (returnConnection cfg now c s)\<lparr>pool := pool (returnConnection cfg now c s) @ map mk_pooled xs\<rparr>"
    using "2.prems" by (intro "2.IH") (simp_all add: r)
  then show ?case by (simp add: r)
qed

lemma pool_step_bounded:
  "0 \<le> POOL_MAX_SIZE cfg \<Longrightarrow> int (length (pool s)) \<le> POOL_MAX_SIZE cfg \<Longrightarrow>
   int (length (pool (pool_step cfg x s))) \<le> POOL_MAX_SIZE cfg"
proof (cases x)
  case (Pair now op)
  assume a: "0 \<le> POOL_MAX_SIZE cfg" "int (length (pool s)) \<le> POOL_MAX_SIZE cfg"
  have f: "int (length (filter (\<lambda>pooled. \<not> expired cfg now pooled) (pool s))) \<le> POOL_MAX_SIZE cfg"
    using a(2) length_filter_le[of "\<lambda>pooled. \<not> expired cfg now pooled" "pool s"] by linarith
  show ?thesis
  proof (cases op)
    case (Get outcome)
    then show ?thesis using Pair a f
      by (auto simp: getConnection_def createNewConnection_def cleanupExpired_def Let_def
               split: option.splits)
  next
    case (Return c)
    then show ?thesis using Pair a by (auto simp: returnConnection_def)
  next
    case Cleanup
    then show ?thesis using Pair f by (simp add: cleanupExpired_def)
  next
    case Shutdown
    then show ?thesis using Pair a by (simp add: shutdown_def)
  qed
qed

lemma pool_run_bounded:
  "0 \<le> POOL_MAX_SIZE cfg \<Longrightarrow> int (length (pool s)) \<le> POOL_MAX_SIZE cfg \<Longrightarrow>
   int (length (pool (pool_run cfg ops s))) \<le> POOL_MAX_SIZE cfg"
proof (induction ops arbitrary: s)
  case Nil
  then show ?case by simp
next
  case (Cons x ops)
  have "int (length (pool (pool_step cfg x s))) \<le> POOL_MAX_SIZE cfg"
    using Cons.prems by (rule pool_step_bounded)
  then have "int (length (pool (pool_run cfg ops (pool_step cfg x s)))) \<le> POOL_MAX_SIZE cfg"
    using Cons.prems(1) by (intro Cons.IH)
  then show ?case by simp
qed

text \<open>
  C5. With pooling disabled a released session is closed. With pooling enabled it is closed, and
  the pool left as it is, when the pool already holds \<open>maxSize\<close> entries; otherwise it is pushed
  with the time of the release as its last-used timestamp. Hence releasing \<open>N + 1\<close> sessions
  into an empty pool with \<open>maxSize = N\<close> leaves the first \<open>N\<close> pooled and closes the last one;
  and for any configuration with \<open>maxSize \<ge> 0\<close>, no sequence of acquire, release, cleanup
  and shutdown takes a pool within \<open>maxSize\<close> beyond it.
\<close>

theorem returnConnection_bounded:
  assumes "POOL_ENABLED cfg"
  shows "returnConnection (cfg\<lparr>POOL_ENABLED := False\<rparr>) now c s = s\<lparr>ended := ended s @ [c]\<rparr>
    \<and> returnConnection cfg now c s =
        (if int (length (pool s)) \<ge> POOL_MAX_SIZE cfg then s\<lparr>ended := ended s @ [c]\<rparr>
         else s\<lparr>pool := pool s @ [\<lparr>conn = c, lastUsed = now\<rparr>]\<rparr>)
    \<and> (POOL_MAX_SIZE cfg = int N \<and> length xs = Suc N \<and> pool s = []
        \<longrightarrow> pool (returnAll cfg xs s) = map mk_pooled (butlast xs)
            \<and> length (pool (returnAll cfg xs s)) = N
            \<and> ended (returnAll cfg xs s) = ended s @ [snd (last xs)])
    \<and> (0 \<le> POOL_MAX_SIZE cfg' \<and> int (length (pool s)) \<le> POOL_MAX_SIZE cfg'
        \<longrightarrow> int (length (pool (pool_run cfg' ops s))) \<le> POOL_MAX_SIZE cfg')"
proof (intro conjI impI)
  show "returnConnection (cfg\<lparr>POOL_ENABLED := False\<rparr>) now c s = s\<lparr>ended := ended s @ [c]\<rparr>"
    by (simp add: returnConnection_def)
  show "returnConnection cfg now c s =
        (if int (length (pool s)) \<ge> POOL_MAX_SIZE cfg then s\<lparr>ended := ended s @ [c]\<rparr>
         else s\<lparr>pool := pool s @ [\<lparr>conn = c, lastUsed = now\<rparr>]\<rparr>)"
    using assms by (simp add: returnConnection_def)
next
  assume h: "POOL_MAX_SIZE cfg = int N \<and> length xs = Suc N \<and> pool s = []"
  then have ne: "xs \<noteq> []" by auto
  then have xs: "xs = butlast xs @ [last xs]" by simp
  have len: "length (butlast xs) = N" using h by simp
  have a: "returnAll cfg (butlast xs) s = s\<lparr>pool := pool s @ map mk_pooled (butlast xs)\<rparr>"
    using h len by (intro returnAll_room[OF assms]) simp
  have "returnAll cfg xs s = returnAll cfg [last xs] (returnAll cfg (butlast xs) s)"
    using xs returnAll_append[of cfg "butlast xs" "[last xs]" s] by simp
  also have "\<dots> = returnConnection cfg (fst (last xs)) (snd (last xs))
                    (s\<lparr>pool := pool s @ map mk_pooled (butlast xs)\<rparr>)"
    by (cases "last xs") (simp add: a)
  also have "\<dots> = s\<lparr>pool := map mk_pooled (butlast xs), ended := ended s @ [snd (last xs)]\<rparr>"
    using assms h len by (simp add: returnConnection_def)
  finally have r: "returnAll cfg xs s
      = s\<lparr>pool := map mk_pooled (butlast xs), ended := ended s @ [snd (last xs)]\<rparr>" .
  show "pool (returnAll cfg xs s) = map mk_pooled (butlast xs)" by (simp add: r)
  show "length (pool (returnAll cfg xs s)) = N" using len by (simp add: r)
  show "ended (returnAll cfg xs s) = ended s @ [snd (last xs)]" by (simp add: r)
next
  assume "0 \<le> POOL_MAX_SIZE cfg' \<and> int (length (pool s)) \<le> POOL_MAX_SIZE cfg'"
  then show "int (length (pool (pool_run cfg' ops s))) \<le> POOL_MAX_SIZE cfg'"
    by (intro pool_run_bounded) auto
qed

text \<open>Witness: \<open>maxSize = 2\<close>, three sessions released into the empty pool.\<close>

theorem returnConnection_bounded_witness:
  "POOL_ENABLED cfg_pool2
   \<and> POOL_MAX_SIZE cfg_pool2 = int 2
   \<and> length [(10, 0), (20, 1), (30, 2 :: nat)] = Suc 2
   \<and> pool sys_init = []
   \<and> 0 \<le> POOL_MAX_SIZE cfg_pool2
   \<and> int (length (pool sys_init)) \<le> POOL_MAX_SIZE cfg_pool2
   \<and> pool (returnAll cfg_pool2 [(10, 0), (20, 1), (30, 2)] sys_init)
       = [\<lparr>conn = 0, lastUsed = 10\<rparr>, \<lparr>conn = 1, lastUsed = 20\<rparr>]
   \<and> ended (returnAll cfg_pool2 [(10, 0), (20, 1), (30, 2)] sys_init) = [2]
   \<and> int (length (pool (pool_run cfg_pool2
         [(10, Return 0), (20, Return 1), (30, Return 2), (40, Get None), (50, Return 3),
          (60, Return 4)] sys_init))) \<le> POOL_MAX_SIZE cfg_pool2"
proof -
  have e: "POOL_ENABLED cfg_pool2"
    by (simp add: cfg_pool2_def default_config_def)
  show ?thesis
    using e returnConnection_bounded
      [OF e, where N = 2 and xs = "[(10, 0), (20, 1), (30, 2)]" and s = sys_init
         and cfg' = cfg_pool2 and now = 0 and c = 0
         and ops = "[(10, Return 0), (20, Return 1), (30, Return 2), (40, Get None),
                     (50, Return 3), (60, Return 4)]"]
    by (simp add: cfg_pool2_def default_config_def sys_init_def mk_pooled_def
          returnConnection_def)
qed

subsection \<open>Session pool: acquire; remote path expansion\<close>

text \<open>
  C6. With pooling disabled \<open>getConnection\<close> creates a connection, and a created connection is
  a new one. With pooling enabled the entries idle for longer than \<open>ttlMs\<close> are closed and
  removed first; if an entry remains, the last one pushed is popped and returned and no
  connection is created; only if none remains is a connection created. Reuse is last-in
  first-out: a session released into a pool with room is the one the next acquire returns, as long
  as it has not expired.
\<close>

theorem getConnection_lifo:
  assumes "POOL_ENABLED cfg"
  shows "getConnection (cfg\<lparr>POOL_ENABLED := False\<rparr>) now oc s = createNewConnection oc s
    \<and> fst (createNewConnection None s) = Inr (connects s)
    \<and> connects (snd (createNewConnection oc s)) = Suc (connects s)
    \<and> pool (cleanupExpired cfg now s) = filter (\<lambda>p. \<not> now - lastUsed p > POOL_TTL cfg) (pool s)
    \<and> ended (cleanupExpired cfg now s)
         = ended s @ map conn (filter (\<lambda>p. now - lastUsed p > POOL_TTL cfg) (pool s))
    \<and> connects (cleanupExpired cfg now s) = connects s
    \<and> getConnection cfg now oc s =
        (if pool (cleanupExpired cfg now s) \<noteq> []
         then (Inr (conn (last (pool (cleanupExpired cfg now s)))),
               (cleanupExpired cfg now s)\<lparr>pool := butlast (pool (cleanupExpired cfg now s))\<rparr>)
         else createNewConnection oc (cleanupExpired cfg now s))
    \<and> (int (length (pool s)) < POOL_MAX_SIZE cfg \<and> later - now \<le> POOL_TTL cfg
        \<longrightarrow> fst (getConnection cfg later oc (returnConnection cfg now c s)) = Inr c
            \<and> connects (snd (getConnection cfg later oc (returnConnection cfg now c s)))
                = connects s)"
proof (intro conjI impI)
  show "getConnection (cfg\<lparr>POOL_ENABLED := False\<rparr>) now oc s = createNewConnection oc s"
    by (simp add: getConnection_def)
  show "fst (createNewConnection None s) = Inr (connects s)"
    by (simp add: createNewConnection_def)
  show "connects (snd (createNewConnection oc s)) = Suc (connects s)"
    by (simp add: createNewConnection_def split: option.splits)
  show "pool (cleanupExpired cfg now s) = filter (\<lambda>p. \<not> now - lastUsed p > POOL_TTL cfg) (pool s)"
    by (simp add: cleanupExpired_def expired_def)
  show "ended (cleanupExpired cfg now s)
         = ended s @ map conn (filter (\<lambda>p. now - lastUsed p > POOL_TTL cfg) (pool s))"
    by (simp add: cleanupExpired_def expired_def[abs_def])
  show "connects (cleanupExpired cfg now s) = connects s"
    by (simp add: cleanupExpired_def)
  show "getConnection cfg now oc s =
        (if pool (cleanupExpired cfg now s) \<noteq> []
         then (Inr (conn (last (pool (cleanupExpired cfg now s)))),
               (cleanupExpired cfg now s)\<lparr>pool := butlast (pool (cleanupExpired cfg now s))\<rparr>)
         else createNewConnection oc (cleanupExpired cfg now s))"
    using assms by (simp add: getConnection_def Let_def)
next
  assume h: "int (length (pool s)) < POOL_MAX_SIZE cfg \<and> later - now \<le> POOL_TTL cfg"
  have r: "returnConnection cfg now c s = s\<lparr>pool := pool s @ [\<lparr>conn = c, lastUsed = now\<rparr>]\<rparr>"
    using assms h by (simp add: returnConnection_def)
  have p: "pool (cleanupExpired cfg later (returnConnection cfg now c s))
             = filter (\<lambda>pooled. \<not> expired cfg later pooled) (pool s) @ [\<lparr>conn = c, lastUsed = now\<rparr>]"
    using h by (simp add: r cleanupExpired_def expired_def)
  have k: "connects (cleanupExpired cfg later (returnConnection cfg now c s)) = connects s"
    by (simp add: r cleanupExpired_def)
  show "fst (getConnection cfg later oc (returnConnection cfg now c s)) = Inr c"
    using assms by (simp add: getConnection_def Let_def p)
  show "connects (snd (getConnection cfg later oc (returnConnection cfg now c s))) = connects s"
    using assms by (simp add: getConnection_def Let_def p k)
qed

text \<open>Witness: the default configuration and a pool of two entries, the older one expired.\<close>

theorem getConnection_lifo_witness:
  "POOL_ENABLED default_config
   \<and> int (length (pool sys_two)) < POOL_MAX_SIZE default_config
   \<and> 500200 - 500100 \<le> POOL_TTL default_config
   \<and> getConnection default_config 500050 None sys_two
       = (Inr 1, \<lparr>requests = [], pool = [], ended = [0], connects = 2\<rparr>)
   \<and> fst (getConnection default_config 500200 None (returnConnection default_config 500100 7 sys_two))
       = Inr 7"
proof -
  have e: "POOL_ENABLED default_config"
    by (simp add: default_config_def)
  have h: "int (length (pool sys_two)) < POOL_MAX_SIZE default_config
           \<and> 500200 - 500100 \<le> POOL_TTL default_config"
    by (simp add: default_config_def sys_two_def)
  show ?thesis
    using e h getConnection_lifo
      [OF e, where s = sys_two and now = 500100 and later = 500200 and oc = None and c = 7]
    by (simp add: default_config_def sys_two_def getConnection_def cleanupExpired_def
          expired_def returnConnection_def createNewConnection_def)
qed

text \<open>
  C9. \<open>expandRemotePath\<close> returns a path that does not begin with \<open>~\<close> unchanged; for a path
  that does, it resolves with the original path when \<open>realpath\<close> reports an error and with the
  resolved path otherwise; it never rejects.
\<close>

theorem expandRemotePath_total:
  "(\<not> startsWith p ''~'' \<longrightarrow> expandRemotePath rp p = Inr p)
   \<and> (startsWith q ''~'' \<and> rp q = Inl err \<longrightarrow> expandRemotePath rp q = Inr q)
   \<and> (startsWith q' ''~'' \<and> rp' q' = Inr resolved \<longrightarrow> expandRemotePath rp' q' = Inr resolved)
   \<and> \<not> isl (expandRemotePath rp r)"
proof (intro conjI impI)
  show "expandRemotePath rp p = Inr p" if "\<not> startsWith p ''~''"
    using that by (simp add: expandRemotePath_def)
  show "expandRemotePath rp q = Inr q" if "startsWith q ''~'' \<and> rp q = Inl err"
    using that by (simp add: expandRemotePath_def)
  show "expandRemotePath rp' q' = Inr resolved" if "startsWith q' ''~'' \<and> rp' q' = Inr resolved"
    using that by (simp add: expandRemotePath_def)
  show "\<not> isl (expandRemotePath rp r)"
  proof (cases "startsWith r ''~''")
    case True
    then show ?thesis
      by (cases "rp r") (simp_all add: expandRemotePath_def)
  next
    case False
    then show ?thesis by (simp add: expandRemotePath_def)
  qed
qed

text \<open>Witness: an absolute path, a home-relative path whose resolution is denied, and one
  that resolves.\<close>

theorem expandRemotePath_total_witness:
  "\<not> startsWith ''/var/log/syslog'' ''~''
   \<and> expandRemotePath realpath_denied ''/var/log/syslog'' = Inr ''/var/log/syslog''
   \<and> startsWith ''~/Desktop/file.txt'' ''~''
   \<and> realpath_denied ''~/Desktop/file.txt'' = Inl ''Permission denied''
   \<and> expandRemotePath realpath_denied ''~/Desktop/file.txt'' = Inr ''~/Desktop/file.txt''
   \<and> realpath_home ''~/Desktop/file.txt'' = Inr ''/home/user/Desktop/file.txt''
   \<and> expandRemotePath realpath_home ''~/Desktop/file.txt'' = Inr ''/home/user/Desktop/file.txt''"
proof -
  have a: "\<not> startsWith ''/var/log/syslog'' ''~''"
    by (simp add: startsWith_def)
  have b: "startsWith ''~/Desktop/file.txt'' ''~''
           \<and> realpath_denied ''~/Desktop/file.txt'' = Inl ''Permission denied''"
    by (simp add: startsWith_def realpath_denied_def)
  have c: "startsWith ''~/Desktop/file.txt'' ''~''
           \<and> realpath_home ''~/Desktop/file.txt'' = Inr ''/home/user/Desktop/file.txt''"
    by (simp add: startsWith_def realpath_home_def)
  show ?thesis
    using a b c expandRemotePath_total
      [where p = "''/var/log/syslog''" and q = "''~/Desktop/file.txt''" and rp = realpath_denied
         and err = "''Permission denied''" and q' = "''~/Desktop/file.txt''"
         and rp' = realpath_home and resolved = "''/home/user/Desktop/file.txt''"]
    by simp
qed

subsection \<open>Command execution: one outcome per request\<close>

lemma run_append: "run cfg (xs @ ys) x = run cfg ys (run cfg xs x)"
  by (induction xs arbitrary: x) auto

lemma step_resolved:
  assumes "isResolved st"
  shows "isResolved (fst (step cfg e (st, s))) \<and> settled (fst (step cfg e (st, s))) = settled st"
proof (cases e)
  case (Pair now ev)
  show ?thesis
  proof (cases ev)
    case (ExecCallback err)
    then show ?thesis using Pair assms by (cases err) auto
  qed (use Pair assms in auto)
qed

lemma run_resolved:
  "isResolved (fst x) \<Longrightarrow>
   isResolved (fst (run cfg es x)) \<and> settled (fst (run cfg es x)) = settled (fst x)"
proof (induction es arbitrary: x)
  case Nil
  then show ?case by simp
next
  case (Cons e es)
  obtain st s where x: "x = (st, s)" by (cases x)
  have "isResolved (fst (step cfg e x)) \<and> settled (fst (step cfg e x)) = settled (fst x)"
    using Cons.prems step_resolved[of st cfg e s] by (simp add: x)
  then show ?case using Cons.IH[of "step cfg e x"] by simp
qed

lemma step_inv:
  assumes "exec_inv st"
  shows "exec_inv (fst (step cfg e (st, s)))"
proof (cases e)
  case (Pair now ev)
  show ?thesis
  proof (cases ev)
    case (ExecCallback err)
    then show ?thesis using Pair assms by (cases err) (auto simp: exec_inv_def split: if_splits)
  qed (use Pair assms in \<open>auto simp: exec_inv_def split: if_splits\<close>)
qed

lemma run_inv: "exec_inv (fst x) \<Longrightarrow> exec_inv (fst (run cfg es x))"
proof (induction es arbitrary: x)
  case Nil
  then show ?case by simp
next
  case (Cons e es)
  obtain st s where x: "x = (st, s)" by (cases x)
  have "exec_inv (fst (step cfg e x))"
    using Cons.prems step_inv[of st cfg e s] by (simp add: x)
  then show ?case using Cons.IH[of "step cfg e x"] by simp
qed

lemma init_inv: "exec_inv (exec_init c command t0)"
  by (simp add: exec_inv_def exec_init_def)

lemma close_result_not_timeout: "close_result st code \<noteq> Rejected (timeout_error cfg)"
  by (simp add: close_result_def timeout_error_def Let_def)

text \<open>
  What the guard flag does give, over every sequence of events from the start of a command
  execution: \<open>resolve\<close> or \<open>reject\<close> is called at most once. If the deadline timer fires while
  the request is unsettled and \<open>conn.exec\<close> of the abort command returns, the outcome is the
  timeout failure whatever follows; if the stream closes while the request is unsettled, the
  outcome is the result of the close, which is not the timeout failure, whatever follows.
\<close>

lemma exec_first_outcome_wins:
  "length (settled (fst (run cfg evs (exec_init c command t0, s)))) \<le> 1
   \<and> (\<not> isResolved (fst (run cfg pre (exec_init c command t0, s)))
        \<longrightarrow> settled (fst (run cfg (pre @ (t, TimeoutFires) # post) (exec_init c command t0, s)))
              = [Rejected (timeout_error cfg)])
   \<and> (\<not> isResolved (fst (run cfg pre' (exec_init c command t0, s)))
        \<and> streamOpen (fst (run cfg pre' (exec_init c command t0, s)))
        \<longrightarrow> settled (fst (run cfg (pre' @ (t, StreamClose code) # post) (exec_init c command t0, s)))
              = [close_result (fst (run cfg pre' (exec_init c command t0, s))) code]
            \<and> close_result (fst (run cfg pre' (exec_init c command t0, s))) code
                \<noteq> Rejected (timeout_error cfg))"
proof (intro conjI impI)
  let ?x0 = "(exec_init c command t0, s)"
  have i0: "exec_inv (fst ?x0)" by (simp add: init_inv)
  have i: "exec_inv (fst (run cfg es ?x0))" for es
    using run_inv[OF i0] .
  show "length (settled (fst (run cfg evs ?x0))) \<le> 1"
    using i[of evs] by (auto simp: exec_inv_def split: if_splits)
  {
    assume u: "\<not> isResolved (fst (run cfg pre ?x0))"
    obtain st s1 where r: "run cfg pre ?x0 = (st, s1)" by (cases "run cfg pre ?x0")
    have a: "settled st = [] \<and> timeoutId st \<and> \<not> isResolved st"
      using u i[of pre] by (auto simp: r exec_inv_def split: if_splits)
    have b: "isResolved (fst (step cfg (t, TimeoutFires) (st, s1)))
             \<and> settled (fst (step cfg (t, TimeoutFires) (st, s1))) = [Rejected (timeout_error cfg)]"
      using a by simp
    have "settled (fst (run cfg post (step cfg (t, TimeoutFires) (st, s1))))
            = [Rejected (timeout_error cfg)]"
      using b run_resolved[of "step cfg (t, TimeoutFires) (st, s1)" cfg post] by simp
    then show "settled (fst (run cfg (pre @ (t, TimeoutFires) # post) ?x0))
                 = [Rejected (timeout_error cfg)]"
      by (simp add: run_append r)
  }
  {
    assume u: "\<not> isResolved (fst (run cfg pre' ?x0)) \<and> streamOpen (fst (run cfg pre' ?x0))"
    obtain st s1 where r: "run cfg pre' ?x0 = (st, s1)" by (cases "run cfg pre' ?x0")
    have a: "settled st = [] \<and> streamOpen st \<and> \<not> isResolved st"
      using u i[of pre'] by (auto simp: r exec_inv_def split: if_splits)
    have b: "isResolved (fst (step cfg (t, StreamClose code) (st, s1)))
             \<and> settled (fst (step cfg (t, StreamClose code) (st, s1))) = [close_result st code]"
      using a by simp
    have "settled (fst (run cfg post (step cfg (t, StreamClose code) (st, s1))))
            = [close_result st code]"
      using b run_resolved[of "step cfg (t, StreamClose code) (st, s1)" cfg post] by simp
    then show "settled (fst (run cfg (pre' @ (t, StreamClose code) # post) ?x0))
                 = [close_result (fst (run cfg pre' ?x0)) code]"
      by (simp add: run_append r)
    show "close_result (fst (run cfg pre' ?x0)) code \<noteq> Rejected (timeout_error cfg)"
      by (rule close_result_not_timeout)
  }
qed


lemma run_data:
  "streamOpen st \<Longrightarrow>
   run cfg (map data_event ds) (st, s)
     = (st\<lparr>stdout := stdout st @ outs ds, stderr := stderr st @ errs ds\<rparr>, s)"
proof (induction ds arbitrary: st rule: outs.induct)
  case 1
  then show ?case by simp
next
  case (2 t d ds)
  have "run cfg (map data_event ds) (st\<lparr>stdout := stdout st @ d\<rparr>, s)
          = (st\<lparr>stdout := stdout st @ d\<rparr>
               \<lparr>stdout := stdout (st\<lparr>stdout := stdout st @ d\<rparr>) @ outs ds,
                stderr := stderr (st\<lparr>stdout := stdout st @ d\<rparr>) @ errs ds\<rparr>, s)"
    using "2.prems" by (intro "2.IH") simp
  then show ?case using "2.prems" by simp
next
  case (3 t d ds)
  have "run cfg (map data_event ds) (st\<lparr>stderr := stderr st @ d\<rparr>, s)
          = (st\<lparr>stderr := stderr st @ d\<rparr>
               \<lparr>stdout := stdout (st\<lparr>stderr := stderr st @ d\<rparr>) @ outs ds,
                stderr := stderr (st\<lparr>stderr := stderr st @ d\<rparr>) @ errs ds\<rparr>, s)"
    using "3.prems" by (intro "3.IH") simp
  then show ?case using "3.prems" by simp
qed

text \<open>
  C7. A command execution whose stream delivers its data and closes with no deadline event
  before the close: with exit code 0 the promise resolves with the accumulated standard output,
  whatever was written to standard error; with any other exit code it rejects with a message that
  reports the exit code and carries standard error if non-empty, else standard output, else
  \<open>Command failed\<close>. Whatever happens afterwards does not change the outcome.
\<close>

theorem exec_close_result:
  "promise (fst (run cfg
      ((t1, ExecCallback None) # map data_event ds @ (t2, StreamClose code) # post)
      (exec_init c command t0, s)))
    = Some (if code = 0 then Resolved (outs ds)
            else Rejected (McpError InternalError
              (''Command failed (exit code '' @ show_int code @ ''):'' @ [CHR 0x0A]
                 @ (if errs ds \<noteq> [] then errs ds
                    else if outs ds \<noteq> [] then outs ds
                    else ''Command failed''))))"
proof -
  let ?st1 = "(exec_init c command t0)\<lparr>execPending := False, streamOpen := True\<rparr>"
  let ?st2 = "?st1\<lparr>stdout := stdout ?st1 @ outs ds, stderr := stderr ?st1 @ errs ds\<rparr>"
  have a: "step cfg (t1, ExecCallback None) (exec_init c command t0, s) = (?st1, s)"
    by (simp add: exec_init_def)
  have b: "run cfg (map data_event ds) (?st1, s) = (?st2, s)"
    by (intro run_data) simp
  have d: "isResolved (fst (step cfg (t2, StreamClose code) (?st2, s)))
           \<and> settled (fst (step cfg (t2, StreamClose code) (?st2, s))) = [close_result ?st2 code]"
    by (simp add: exec_init_def)
  have e: "settled (fst (run cfg post (step cfg (t2, StreamClose code) (?st2, s))))
             = [close_result ?st2 code]"
    using d run_resolved[of "step cfg (t2, StreamClose code) (?st2, s)" cfg post] by simp
  have f: "run cfg ((t1, ExecCallback None) # map data_event ds @ (t2, StreamClose code) # post)
             (exec_init c command t0, s)
           = run cfg post (step cfg (t2, StreamClose code) (?st2, s))"
    unfolding run.simps(2) a run_append b ..
  show ?thesis
    unfolding f promise_def e
    by (simp add: close_result_def exec_init_def Let_def)
qed

text \<open>Witness: output on both streams, closing with exit code 0 and with exit code 2.\<close>

theorem exec_close_result_witness:
  "promise (fst (run cfg_timeout
      ((10, ExecCallback None) # map data_event [(20, Inl ''ok''), (30, Inr ''warning'')]
         @ (40, StreamClose 0) # [(100, TimeoutFires)])
      (exec_init 0 ''ls'' 0, sys_init)))
    = Some (Resolved ''ok'')
   \<and> promise (fst (run cfg_timeout
      ((10, ExecCallback None) # map data_event [(20, Inl ''ok''), (30, Inr ''warning'')]
         @ (40, StreamClose 2) # [(100, TimeoutFires)])
      (exec_init 0 ''ls'' 0, sys_init)))
    = Some (Rejected (McpError InternalError
        (''Command failed (exit code 2):'' @ [CHR 0x0A] @ ''warning'')))"
  using exec_close_result [where cfg = cfg_timeout and ?t1.0 = 10 and ?t2.0 = 40 and code = 0
      and ds = "[(20, Inl ''ok''), (30, Inr ''warning'')]" and post = "[(100, TimeoutFires)]"
      and c = 0 and command = "''ls''" and ?t0.0 = 0 and s = sys_init]
    exec_close_result [where cfg = cfg_timeout and ?t1.0 = 10 and ?t2.0 = 40 and code = 2
      and ds = "[(20, Inl ''ok''), (30, Inr ''warning'')]" and post = "[(100, TimeoutFires)]"
      and c = 0 and command = "''ls''" and ?t0.0 = 0 and s = sys_init]
  by (simp add: show_int_def show_nat.simps digit_def)

subsection \<open>Command execution: teardown after a timeout\<close>

text \<open>
  C1 on the code: the scenario of the specification, \<open>timeoutMs = 100\<close>, pooling enabled with
  the default size, a command that blocks. The request gets the new connection 0; the stream
  opens at 10; the deadline fires at 100; the abort command's stream opens at 120 and closes at
  150. The promise rejects with the timeout failure, and the connection is pushed onto the pool,
  not closed; the next acquire hands it out again without connecting. The same happens when
  the abort timer elapses (at 5100) instead of the abort stream closing.
\<close>

theorem exec_timeout_returns_session:
  "exec_tool cfg_timeout remote_ok 0 ''sleep 10'' sys_init
     = (Inr (exec_init 0 ''sleep 10'' 0), sys_started)
   \<and> promise (fst (run cfg_timeout
        [(10, ExecCallback None), (100, TimeoutFires), (120, AbortCallback True),
         (150, AbortStreamClose)] (exec_init 0 ''sleep 10'' 0, sys_started)))
       = Some (Rejected (timeout_error cfg_timeout))
   \<and> snd (run cfg_timeout
        [(10, ExecCallback None), (100, TimeoutFires), (120, AbortCallback True),
         (150, AbortStreamClose)] (exec_init 0 ''sleep 10'' 0, sys_started))
       = \<lparr>requests = [0], pool = [\<lparr>conn = 0, lastUsed = 150\<rparr>], ended = [], connects = 1\<rparr>
   \<and> snd (run cfg_timeout
        [(10, ExecCallback None), (100, TimeoutFires), (120, AbortCallback True),
         (5100, AbortTimeoutFires)] (exec_init 0 ''sleep 10'' 0, sys_started))
       = \<lparr>requests = [0], pool = [\<lparr>conn = 0, lastUsed = 5100\<rparr>], ended = [], connects = 1\<rparr>
   \<and> getConnection cfg_timeout 200 None
        \<lparr>requests = [0], pool = [\<lparr>conn = 0, lastUsed = 150\<rparr>], ended = [], connects = 1\<rparr>
       = (Inr 0, \<lparr>requests = [0], pool = [], ended = [], connects = 1\<rparr>)"
  by (simp add: exec_tool_def execSshCommand_def checkLimit_def sanitizeCommand_def trim_def
        is_space_def getConnection_def cleanupExpired_def createNewConnection_def expired_def
        returnConnection_def cfg_timeout_def default_config_def remote_ok_def sys_init_def
        sys_started_def exec_init_def promise_def)

text \<open>
  C3 on the code: the same request, but the abort timer fires (at 5100) before the abort
  command's stream closes (at 5200). Both handlers release the connection: it occupies two pool
  entries, and two acquires in a row hand the same connection to two operations without any
  release in between.
\<close>

theorem exec_timeout_double_release:
  "snd (run cfg_timeout
        [(10, ExecCallback None), (100, TimeoutFires), (120, AbortCallback True),
         (5100, AbortTimeoutFires), (5200, AbortStreamClose)]
        (exec_init 0 ''sleep 10'' 0, sys_started))
     = \<lparr>requests = [0], pool = [\<lparr>conn = 0, lastUsed = 5100\<rparr>, \<lparr>conn = 0, lastUsed = 5200\<rparr>],
        ended = [], connects = 1\<rparr>
   \<and> getConnection cfg_timeout 5300 None
        \<lparr>requests = [0], pool = [\<lparr>conn = 0, lastUsed = 5100\<rparr>, \<lparr>conn = 0, lastUsed = 5200\<rparr>],
         ended = [], connects = 1\<rparr>
       = (Inr 0, \<lparr>requests = [0], pool = [\<lparr>conn = 0, lastUsed = 5100\<rparr>], ended = [], connects = 1\<rparr>)
   \<and> getConnection cfg_timeout 5301 None
        \<lparr>requests = [0], pool = [\<lparr>conn = 0, lastUsed = 5100\<rparr>], ended = [], connects = 1\<rparr>
       = (Inr 0, \<lparr>requests = [0], pool = [], ended = [], connects = 1\<rparr>)"
  by (simp add: getConnection_def cleanupExpired_def createNewConnection_def expired_def
        returnConnection_def cfg_timeout_def default_config_def sys_started_def exec_init_def)

subsection \<open>Failing before any session is touched\<close>

lemma exec_tool_denied:
  "fst (checkLimit cfg t0 (requests s)) = Inl e \<Longrightarrow>
   fst (exec_tool cfg w t0 command s) = Inl e \<and> same_sessions s (snd (exec_tool cfg w t0 command s))"
  by (cases "checkLimit cfg t0 (requests s)") (auto simp: exec_tool_def same_sessions_def)

lemma exec_tool_invalid:
  "fst (checkLimit cfg t0 (requests s)) = Inr u \<Longrightarrow> sanitizeCommand cfg command = Inl e \<Longrightarrow>
   fst (exec_tool cfg w t0 command s) = Inl e \<and> same_sessions s (snd (exec_tool cfg w t0 command s))"
  by (cases "checkLimit cfg t0 (requests s)") (auto simp: exec_tool_def same_sessions_def)

lemma upload_tool_denied:
  "fst (checkLimit cfg t0 (requests s)) = Inl e \<Longrightarrow>
   fst (upload_tool cfg fs w t0 t1 localPath remotePath s) = Some (Inl e)
   \<and> same_sessions s (snd (upload_tool cfg fs w t0 t1 localPath remotePath s))"
  by (cases "checkLimit cfg t0 (requests s)") (auto simp: upload_tool_def same_sessions_def)

lemma uploadFile_invalid:
  "\<not> valid (validateLocalUploadPath fs localPath) \<Longrightarrow>
   uploadFile cfg fs w t0 t1 localPath remotePath s
     = (Some (Inl (McpError InvalidParams
          (validation_message (validateLocalUploadPath fs localPath)))), s)"
  by (simp add: uploadFile_def Let_def)

lemma upload_tool_invalid:
  assumes "fst (checkLimit cfg t0 (requests s)) = Inr u"
    and "\<not> valid (validateLocalUploadPath fs localPath)"
  shows "fst (upload_tool cfg fs w t0 t1 localPath remotePath s)
           = Some (Inl (case key_read w of
                None \<Rightarrow> McpError InvalidParams
                  (validation_message (validateLocalUploadPath fs localPath))
              | Some msg \<Rightarrow> McpError InternalError (''Upload failed: '' @ msg)))
   \<and> same_sessions s (snd (upload_tool cfg fs w t0 t1 localPath remotePath s))"
  using assms
  by (cases "checkLimit cfg t0 (requests s)")
     (auto simp: upload_tool_def same_sessions_def uploadFile_invalid split: option.splits)

lemma download_tool_denied:
  "fst (checkLimit cfg t0 (requests s)) = Inl e \<Longrightarrow>
   fst (download_tool cfg fs w t0 t1 remotePath localPath s) = Some (Inl e)
   \<and> same_sessions s (snd (download_tool cfg fs w t0 t1 remotePath localPath s))"
  by (cases "checkLimit cfg t0 (requests s)") (auto simp: download_tool_def same_sessions_def)

lemma downloadFile_invalid:
  "\<not> valid (validateLocalDownloadPath fs localPath) \<Longrightarrow>
   downloadFile cfg fs w t0 t1 remotePath localPath s
     = (Some (Inl (McpError InvalidParams
          (validation_message (validateLocalDownloadPath fs localPath)))), s)"
  by (simp add: downloadFile_def Let_def)

lemma download_tool_invalid:
  assumes "fst (checkLimit cfg t0 (requests s)) = Inr u"
    and "\<not> valid (validateLocalDownloadPath fs localPath)"
  shows "fst (download_tool cfg fs w t0 t1 remotePath localPath s)
           = Some (Inl (case key_read w of
                None \<Rightarrow> McpError InvalidParams
                  (validation_message (validateLocalDownloadPath fs localPath))
              | Some msg \<Rightarrow> McpError InternalError (''Download failed: '' @ msg)))
   \<and> same_sessions s (snd (download_tool cfg fs w t0 t1 remotePath localPath s))"
  using assms
  by (cases "checkLimit cfg t0 (requests s)")
     (auto simp: download_tool_def same_sessions_def downloadFile_invalid split: option.splits)

text \<open>
  C8. In the exec, upload and download handlers, a request denied by the rate limiter (state
  \<open>sd\<close>) fails with the limiter's error; an admitted request (state \<open>s\<close>) whose command fails
  sanitization fails with that error; and an admitted upload or download whose local path fails
  validation fails with the validation error (or, when the key file cannot be read, with that
  earlier error). In each case the pool, the closed connections and the number of connections
  created are what they were before the request: no connection is created, acquired or closed.
\<close>

theorem fail_fast_no_session:
  "(fst (checkLimit cfg t0 (requests sd)) = Inl e
      \<longrightarrow> fst (exec_tool cfg w t0 command sd) = Inl e
          \<and> same_sessions sd (snd (exec_tool cfg w t0 command sd))
          \<and> fst (upload_tool cfg fs w t0 t1 localPath remotePath sd) = Some (Inl e)
          \<and> same_sessions sd (snd (upload_tool cfg fs w t0 t1 localPath remotePath sd))
          \<and> fst (download_tool cfg fs w t0 t1 remotePath localPath sd) = Some (Inl e)
          \<and> same_sessions sd (snd (download_tool cfg fs w t0 t1 remotePath localPath sd)))
   \<and> (fst (checkLimit cfg t0 (requests s)) = Inr () \<and> sanitizeCommand cfg command = Inl e'
      \<longrightarrow> fst (exec_tool cfg w t0 command s) = Inl e'
          \<and> same_sessions s (snd (exec_tool cfg w t0 command s)))
   \<and> (fst (checkLimit cfg t0 (requests s)) = Inr ()
        \<and> \<not> valid (validateLocalUploadPath fs localPath)
      \<longrightarrow> fst (upload_tool cfg fs w t0 t1 localPath remotePath s)
            = Some (Inl (case key_read w of
                 None \<Rightarrow> McpError InvalidParams
                   (validation_message (validateLocalUploadPath fs localPath))
               | Some msg \<Rightarrow> McpError InternalError (''Upload failed: '' @ msg)))
          \<and> same_sessions s (snd (upload_tool cfg fs w t0 t1 localPath remotePath s)))
   \<and> (fst (checkLimit cfg t0 (requests s)) = Inr ()
        \<and> \<not> valid (validateLocalDownloadPath fs localPath)
      \<longrightarrow> fst (download_tool cfg fs w t0 t1 remotePath localPath s)
            = Some (Inl (case key_read w of
                 None \<Rightarrow> McpError InvalidParams
                   (validation_message (validateLocalDownloadPath fs localPath))
               | Some msg \<Rightarrow> McpError InternalError (''Download failed: '' @ msg)))
          \<and> same_sessions s (snd (download_tool cfg fs w t0 t1 remotePath localPath s)))"
  using exec_tool_denied[of cfg t0 sd e w command]
    upload_tool_denied[of cfg t0 sd e fs w t1 localPath remotePath]
    download_tool_denied[of cfg t0 sd e fs w t1 remotePath localPath]
    exec_tool_invalid[of cfg t0 s "()" command e' w]
    upload_tool_invalid[of cfg t0 s "()" fs localPath w t1 remotePath]
    download_tool_invalid[of cfg t0 s "()" fs localPath w t1 remotePath]
  by blast

text \<open>Witness: \<open>max = 1\<close> and \<open>windowMs = 1000\<close>; a denied request at 1000 on a window holding 900,
  and admitted requests at 2000 with a blank command, with a local path that does not exist,
  and with a relative local path when the working directory is gone (\<open>path.resolve\<close> throws);
  one connection is pooled throughout.\<close>

theorem fail_fast_no_session_witness:
  "fst (checkLimit cfg_rate 1000 (requests sys_busy))
      = Inl (McpError InvalidRequest (rate_limit_message cfg_rate))
   \<and> fst (exec_tool cfg_rate remote_ok 1000 ''uptime'' sys_busy)
      = Inl (McpError InvalidRequest (rate_limit_message cfg_rate))
   \<and> pool (snd (exec_tool cfg_rate remote_ok 1000 ''uptime'' sys_busy)) = pool sys_busy
   \<and> fst (checkLimit cfg_rate 2000 (requests sys_busy)) = Inr ()
   \<and> sanitizeCommand cfg_rate ''   '' = Inl (McpError InvalidParams ''Command cannot be empty'')
   \<and> fst (exec_tool cfg_rate remote_ok 2000 ''   '' sys_busy)
      = Inl (McpError InvalidParams ''Command cannot be empty'')
   \<and> same_sessions sys_busy (snd (exec_tool cfg_rate remote_ok 2000 ''   '' sys_busy))
   \<and> valid (validateLocalUploadPath fs_empty ''./missing.txt'') = False
   \<and> valid (validateLocalDownloadPath fs_empty ''./missing.txt'') = False
   \<and> same_sessions sys_busy
        (snd (upload_tool cfg_rate fs_empty remote_ok 2000 2100 ''./missing.txt'' ''~/x'' sys_busy))
   \<and> same_sessions sys_busy
        (snd (download_tool cfg_rate fs_empty remote_ok 2000 2100 ''~/x'' ''./missing.txt'' sys_busy))
   \<and> validateLocalDownloadPath fs_no_cwd ''./out.txt''
      = path_validation_error ''./out.txt'' ''ENOENT: no such file or directory, uv_cwd''
   \<and> validateLocalUploadPath fs_no_cwd ''./out.txt''
      = path_validation_error ''./out.txt'' ''ENOENT: no such file or directory, uv_cwd''
   \<and> same_sessions sys_busy
        (snd (upload_tool cfg_rate fs_no_cwd remote_ok 2000 2100 ''./out.txt'' ''~/x'' sys_busy))
   \<and> same_sessions sys_busy
        (snd (download_tool cfg_rate fs_no_cwd remote_ok 2000 2100 ''~/x'' ''./out.txt'' sys_busy))"
proof -
  have d: "fst (checkLimit cfg_rate 1000 (requests sys_busy))
             = Inl (McpError InvalidRequest (rate_limit_message cfg_rate))"
    by (simp add: checkLimit_def cfg_rate_def default_config_def sys_busy_def)
  have a: "fst (checkLimit cfg_rate 2000 (requests sys_busy)) = Inr ()"
    by (simp add: checkLimit_def cfg_rate_def default_config_def sys_busy_def)
  have c: "sanitizeCommand cfg_rate ''   '' = Inl (McpError InvalidParams ''Command cannot be empty'')"
    by (simp add: sanitizeCommand_def trim_def is_space_def)
  have u: "\<not> valid (validateLocalUploadPath fs_empty ''./missing.txt'')"
    by (simp add: validateLocalUploadPath_def expand_home_def startsWith_def fs_empty_def)
  have v: "\<not> valid (validateLocalDownloadPath fs_empty ''./missing.txt'')"
    by (simp add: validateLocalDownloadPath_def expand_home_def startsWith_def fs_empty_def)
  have u': "validateLocalUploadPath fs_no_cwd ''./out.txt''
      = path_validation_error ''./out.txt'' ''ENOENT: no such file or directory, uv_cwd''"
    by (simp add: validateLocalUploadPath_def expand_home_def startsWith_def fs_no_cwd_def
          fs_empty_def)
  have v': "validateLocalDownloadPath fs_no_cwd ''./out.txt''
      = path_validation_error ''./out.txt'' ''ENOENT: no such file or directory, uv_cwd''"
    by (simp add: validateLocalDownloadPath_def expand_home_def startsWith_def fs_no_cwd_def
          fs_empty_def)
  have w: "\<not> valid (validateLocalUploadPath fs_no_cwd ''./out.txt'')
           \<and> \<not> valid (validateLocalDownloadPath fs_no_cwd ''./out.txt'')"
    by (simp add: u' v' path_validation_error_def)
  note t1 = fail_fast_no_session [where cfg = cfg_rate and ?t0.0 = 1000 and sd = sys_busy
      and e = "McpError InvalidRequest (rate_limit_message cfg_rate)" and w = remote_ok
      and command = "''uptime''" and s = sys_busy and fs = fs_empty
      and localPath = "''./missing.txt''" and remotePath = "''~/x''" and ?t1.0 = 2100
      and e' = "McpError InvalidParams ''Command cannot be empty''"]
  note t2 = fail_fast_no_session [where cfg = cfg_rate and ?t0.0 = 2000 and sd = sys_busy
      and e = "McpError InvalidRequest (rate_limit_message cfg_rate)" and w = remote_ok
      and command = "''   ''" and s = sys_busy and fs = fs_empty
      and localPath = "''./missing.txt''" and remotePath = "''~/x''" and ?t1.0 = 2100
      and e' = "McpError InvalidParams ''Command cannot be empty''"]
  note t3 = fail_fast_no_session [where cfg = cfg_rate and ?t0.0 = 2000 and sd = sys_busy
      and e = "McpError InvalidRequest (rate_limit_message cfg_rate)" and w = remote_ok
      and command = "''   ''" and s = sys_busy and fs = fs_no_cwd
      and localPath = "''./out.txt''" and remotePath = "''~/x''" and ?t1.0 = 2100
      and e' = "McpError InvalidParams ''Command cannot be empty''"]
  show ?thesis
    using d a c u v u' v' w t1 t2 t3 by (simp add: same_sessions_def)
qed

end
